theory Spec2Isabelle
  imports Complex_Main "HOL-Library.Word" "HOL-Library.Monad_Syntax"
begin

section \<open>The scenario script \<open>droneConfig.cc\<close>\<close>

text \<open>
  The program is one function, \<open>main\<close>, a straight line of calls into the ns-3
  framework. The embedding keeps every statement of \<open>main\<close> as one step on an explicit
  state: the local variables of \<open>main\<close>, the part of the framework's global state that the
  script writes (attribute defaults, created nodes, installed stacks, links and routes) and
  the sequence of framework calls issued so far.

  The framework itself is not part of the repository. Its objects are modelled only as far
  as the script touches them; what the framework computes from text (reading a number from
  an argument, handling an argument that names none of the script's options, loading a
  configuration file) is taken as a parameter, the record \<open>ns3\<close>, and nothing is assumed
  about it. A call that ends the process inside the framework (an invalid argument, a
  request for the usage text, a null pointer dereference) is the result \<open>None\<close>.
\<close>

subsection \<open>Values handed to the framework\<close>

datatype Time = MicroSeconds real | Seconds real

datatype DataRate = DataRate string

datatype AttributeValue =
    BooleanValue bool
  | TimeValue Time
  | DataRateValue DataRate
  | UintegerValue nat
  | StringValue string

datatype Ipv4Mask = Ipv4Mask string

text \<open>
  An address is either written in the script (\<open>Ipv4Address("7.0.0.0")\<close>) or handed out by
  an address helper: \<open>NewAddress network mask k\<close> is the \<open>k\<close>-th host address of
  \<open>network\<close> under \<open>mask\<close>.
\<close>

datatype Ipv4Address = Ipv4Address string | NewAddress Ipv4Address Ipv4Mask nat

text \<open>
  A node is the PGW node owned by the EPC helper, or the \<open>k\<close>-th node made by a
  \<open>NodeContainer::Create\<close> of this program.
\<close>

datatype Node = PgwNode | Node nat

datatype EpcHelper = MmWavePointToPointEpcHelper

record MmWaveHelper =
  m_schedulerType :: "string option"
  m_epcHelper :: "EpcHelper option"
  m_harqEnabled :: "bool option"

record PointToPointHelper =
  m_deviceFactory :: "string \<rightharpoonup> AttributeValue"
  m_channelFactory :: "string \<rightharpoonup> AttributeValue"

record NetDevice =
  device_node :: Node
  device_attributes :: "string \<rightharpoonup> AttributeValue"
  channel_attributes :: "string \<rightharpoonup> AttributeValue"

record Ipv4AddressHelper =
  m_base :: "(Ipv4Address \<times> Ipv4Mask) option"
  m_address :: nat

record Ipv4Interface =
  interface_node :: Node
  interface_address :: Ipv4Address

subsection \<open>The local variables bound to command-line options\<close>

text \<open>Lines 18 to 25. A \<open>double\<close> is only stored, never computed with.\<close>

record variables =
  numEnb :: "16 word"
  numUe :: "16 word"
  simTime :: real
  interPacketInterval :: real
  minDistance :: real
  maxDistance :: real
  harqEnabled :: bool
  rlcAmEnabled :: bool

definition declared :: variables where
  "declared =
     \<lparr>numEnb = 1, numUe = 1, simTime = 2.0, interPacketInterval = 100,
      minDistance = 10.0, maxDistance = 150.0, harqEnabled = True, rlcAmEnabled = False\<rparr>"

text \<open>
  \<open>AddValue\<close> binds an option name to a reference to a local variable; the C++ type of
  the variable selects how the option's text is read.
\<close>

datatype reference =
    To_numEnb | To_numUe | To_simTime | To_interPacketInterval | To_harqEnabled
  | To_rlcAmEnabled

datatype CType = Uint16_t | Double | Bool

fun type_of_reference :: "reference \<Rightarrow> CType" where
  "type_of_reference To_numEnb = Uint16_t"
| "type_of_reference To_numUe = Uint16_t"
| "type_of_reference To_simTime = Double"
| "type_of_reference To_interPacketInterval = Double"
| "type_of_reference To_harqEnabled = Bool"
| "type_of_reference To_rlcAmEnabled = Bool"

type_synonym item = "string \<times> string \<times> reference"

definition item_name :: "item \<Rightarrow> string" where
  "item_name i = fst i"

definition item_reference :: "item \<Rightarrow> reference" where
  "item_reference i = snd (snd i)"

subsection \<open>The framework calls\<close>

datatype call =
    CommandLine_AddValue string reference
  | CommandLine_Parse
  | Config_SetDefault string AttributeValue
  | CreateObject_MmWaveHelper
  | MmWaveHelper_SetSchedulerType string
  | CreateObject_MmWavePointToPointEpcHelper
  | MmWaveHelper_SetEpcHelper
  | MmWaveHelper_SetHarqEnabled bool
  | ConfigStore_ConfigureDefaults
  | EpcHelper_GetPgwNode
  | NodeContainer_Create string nat
  | NodeContainer_Get string nat
  | InternetStackHelper_Install "Node list"
  | PointToPointHelper_SetDeviceAttribute string AttributeValue
  | PointToPointHelper_SetChannelAttribute string AttributeValue
  | PointToPointHelper_Install Node Node
  | Ipv4AddressHelper_SetBase Ipv4Address Ipv4Mask
  | Ipv4AddressHelper_Assign "Node list"
  | Ipv4InterfaceContainer_GetAddress nat
  | Ipv4StaticRoutingHelper_GetStaticRouting Node
  | Ipv4StaticRouting_AddNetworkRouteTo Node Ipv4Address Ipv4Mask nat
  | Simulator_Run

text \<open>
  \<open>Simulator_Run\<close> is the entry to the engine's event loop. No statement of \<open>main\<close>
  issues it; it is listed so that this can be said.
\<close>

record state =
  vars :: variables
  cmd :: "item list"
  mmwaveHelper :: "MmWaveHelper option"
  epcHelper :: "EpcHelper option"
  pgw :: "Node option"
  remoteHostContainer :: "Node list"
  remoteHost :: "Node option"
  p2ph :: PointToPointHelper
  internetDevices :: "NetDevice list"
  ipv4h :: Ipv4AddressHelper
  internetIpIfaces :: "Ipv4Interface list"
  remoteHostAddr :: "Ipv4Address option"
  remoteHostStaticRouting :: "Node option"
  ueNodes :: "Node list"
  enbNodes :: "Node list"
  defaults :: "string \<rightharpoonup> AttributeValue"
  node_count :: nat
  internet_installed :: "Node list"
  p2p_channels :: "(Node \<times> Node) list"
  static_routes :: "Node \<Rightarrow> (Ipv4Address \<times> Ipv4Mask \<times> nat) list"
  trace :: "call list"

text \<open>
  The state on entry to line 27, for given values of the eight variables: pointers are
  null, containers and helpers are as their default constructors leave them, and the
  script has written nothing to the framework yet.
\<close>

definition start :: "variables \<Rightarrow> state" where
  "start v =
     \<lparr>vars = v, cmd = [], mmwaveHelper = None, epcHelper = None, pgw = None,
      remoteHostContainer = [], remoteHost = None,
      p2ph = \<lparr>m_deviceFactory = Map.empty, m_channelFactory = Map.empty\<rparr>,
      internetDevices = [], ipv4h = \<lparr>m_base = None, m_address = 0\<rparr>,
      internetIpIfaces = [], remoteHostAddr = None, remoteHostStaticRouting = None,
      ueNodes = [], enbNodes = [], defaults = Map.empty, node_count = 0,
      internet_installed = [], p2p_channels = [], static_routes = (\<lambda>n. []),
      trace = []\<rparr>"

definition issue :: "call \<Rightarrow> state \<Rightarrow> state" where
  "issue c s = s\<lparr>trace := trace s @ [c]\<rparr>"

subsection \<open>The command line\<close>

record ns3 =
  read_uint16 :: "string \<Rightarrow> 16 word option"
  read_double :: "string \<Rightarrow> real option"
  read_bool :: "bool \<Rightarrow> string \<Rightarrow> bool option"
  set_global_or_attribute ::
    "string \<Rightarrow> string \<Rightarrow> (string \<rightharpoonup> AttributeValue) \<Rightarrow> (string \<rightharpoonup> AttributeValue) option"
  load_config_store :: "(string \<rightharpoonup> AttributeValue) \<Rightarrow> (string \<rightharpoonup> AttributeValue) option"

text \<open>
  \<open>read_uint16\<close>, \<open>read_double\<close> and \<open>read_bool\<close> read an option's text into a value
  of the variable's type (\<open>read_bool\<close> is given the current value, since an option with
  no text may toggle it); \<open>None\<close> is an invalid argument, which ends the process.
  \<open>set_global_or_attribute\<close> handles an option that is none of the script's: it may set an
  attribute default or end the process. \<open>load_config_store\<close> is what
  \<open>ConfigStore::ConfigureDefaults\<close> does to the attribute defaults.
\<close>

definition AddValue :: "string \<Rightarrow> string \<Rightarrow> reference \<Rightarrow> state \<Rightarrow> state" where
  "AddValue name usage r s = issue (CommandLine_AddValue name r) (s\<lparr>cmd := cmd s @ [(name, usage, r)]\<rparr>)"

text \<open>
  An argument is an option when it starts with \<open>--\<close> or \<open>-\<close>; its name runs up to the
  first \<open>=\<close> and its text is what follows.
\<close>

definition GetOptionName :: "string \<Rightarrow> (string \<times> string) option" where
  "GetOptionName param =
     (let split = (\<lambda>arg. (takeWhile (\<lambda>c. c \<noteq> CHR ''='') arg,
                          drop 1 (dropWhile (\<lambda>c. c \<noteq> CHR ''='') arg)))
      in if take 2 param = ''--'' then Some (split (drop 2 param))
         else if take 1 param = ''-'' then Some (split (drop 1 param))
         else None)"

fun item_Parse :: "ns3 \<Rightarrow> reference \<Rightarrow> string \<Rightarrow> variables \<Rightarrow> variables option" where
  "item_Parse fw To_numEnb text v = map_option (\<lambda>x. v\<lparr>numEnb := x\<rparr>) (read_uint16 fw text)"
| "item_Parse fw To_numUe text v = map_option (\<lambda>x. v\<lparr>numUe := x\<rparr>) (read_uint16 fw text)"
| "item_Parse fw To_simTime text v = map_option (\<lambda>x. v\<lparr>simTime := x\<rparr>) (read_double fw text)"
| "item_Parse fw To_interPacketInterval text v =
     map_option (\<lambda>x. v\<lparr>interPacketInterval := x\<rparr>) (read_double fw text)"
| "item_Parse fw To_harqEnabled text v =
     map_option (\<lambda>x. v\<lparr>harqEnabled := x\<rparr>) (read_bool fw (harqEnabled v) text)"
| "item_Parse fw To_rlcAmEnabled text v =
     map_option (\<lambda>x. v\<lparr>rlcAmEnabled := x\<rparr>) (read_bool fw (rlcAmEnabled v) text)"

definition HandleArgument ::
  "ns3 \<Rightarrow> item list \<Rightarrow> string \<Rightarrow> string \<Rightarrow> variables \<times> (string \<rightharpoonup> AttributeValue)
     \<Rightarrow> (variables \<times> (string \<rightharpoonup> AttributeValue)) option" where
  "HandleArgument fw items name text st =
     (case find (\<lambda>i. item_name i = name) items of
        Some i \<Rightarrow> map_option (\<lambda>v. (v, snd st)) (item_Parse fw (item_reference i) text (fst st))
      | None \<Rightarrow> map_option (\<lambda>d. (fst st, d)) (set_global_or_attribute fw name text (snd st)))"

fun handle_arguments ::
  "ns3 \<Rightarrow> item list \<Rightarrow> string list \<Rightarrow> variables \<times> (string \<rightharpoonup> AttributeValue)
     \<Rightarrow> (variables \<times> (string \<rightharpoonup> AttributeValue)) option" where
  "handle_arguments fw items [] st = Some st"
| "handle_arguments fw items (param # args) st =
     (case GetOptionName param of
        None \<Rightarrow> handle_arguments fw items args st
      | Some (name, text) \<Rightarrow>
          (case HandleArgument fw items name text st of
             None \<Rightarrow> None
           | Some st' \<Rightarrow> handle_arguments fw items args st'))"

text \<open>\<open>cmd.Parse(argc, argv)\<close>: the program name is dropped, the rest handled in order.\<close>

definition Parse :: "ns3 \<Rightarrow> string list \<Rightarrow> state \<Rightarrow> state option" where
  "Parse fw argv s =
     (case handle_arguments fw (cmd s) (drop 1 argv) (vars s, defaults s) of
        None \<Rightarrow> None
      | Some (v, d) \<Rightarrow> Some (issue CommandLine_Parse (s\<lparr>vars := v, defaults := d\<rparr>)))"

subsection \<open>Attribute defaults and helper objects\<close>

definition SetDefault :: "string \<Rightarrow> AttributeValue \<Rightarrow> state \<Rightarrow> state" where
  "SetDefault name v s = issue (Config_SetDefault name v) (s\<lparr>defaults := (defaults s)(name \<mapsto> v)\<rparr>)"

text \<open>
  A helper made by \<open>CreateObject\<close> starts with the fields below unset by the script
  (\<open>None\<close>: the class's own initial value applies). A method called through a null
  pointer ends the process.
\<close>

definition CreateObject_MmWaveHelper_step :: "state \<Rightarrow> state" where
  "CreateObject_MmWaveHelper_step s =
     issue CreateObject_MmWaveHelper
       (s\<lparr>mmwaveHelper := Some \<lparr>m_schedulerType = None, m_epcHelper = None, m_harqEnabled = None\<rparr>\<rparr>)"

definition SetSchedulerType :: "string \<Rightarrow> state \<Rightarrow> state option" where
  "SetSchedulerType name s =
     (case mmwaveHelper s of
        None \<Rightarrow> None
      | Some h \<Rightarrow>
          Some (issue (MmWaveHelper_SetSchedulerType name)
                  (s\<lparr>mmwaveHelper := Some (h\<lparr>m_schedulerType := Some name\<rparr>)\<rparr>)))"

definition CreateObject_EpcHelper_step :: "state \<Rightarrow> state" where
  "CreateObject_EpcHelper_step s =
     issue CreateObject_MmWavePointToPointEpcHelper
       (s\<lparr>epcHelper := Some MmWavePointToPointEpcHelper\<rparr>)"

definition SetEpcHelper :: "EpcHelper option \<Rightarrow> state \<Rightarrow> state option" where
  "SetEpcHelper e s =
     (case mmwaveHelper s of
        None \<Rightarrow> None
      | Some h \<Rightarrow> Some (issue MmWaveHelper_SetEpcHelper (s\<lparr>mmwaveHelper := Some (h\<lparr>m_epcHelper := e\<rparr>)\<rparr>)))"

definition SetHarqEnabled :: "bool \<Rightarrow> state \<Rightarrow> state option" where
  "SetHarqEnabled b s =
     (case mmwaveHelper s of
        None \<Rightarrow> None
      | Some h \<Rightarrow>
          Some (issue (MmWaveHelper_SetHarqEnabled b)
                  (s\<lparr>mmwaveHelper := Some (h\<lparr>m_harqEnabled := Some b\<rparr>)\<rparr>)))"

definition ConfigureDefaults :: "ns3 \<Rightarrow> state \<Rightarrow> state option" where
  "ConfigureDefaults fw s =
     (case load_config_store fw (defaults s) of
        None \<Rightarrow> None
      | Some d \<Rightarrow> Some (issue ConfigStore_ConfigureDefaults (s\<lparr>defaults := d\<rparr>)))"

subsection \<open>Nodes, the link and its addresses\<close>

definition GetPgwNode :: "state \<Rightarrow> state option" where
  "GetPgwNode s =
     (case epcHelper s of
        None \<Rightarrow> None
      | Some e \<Rightarrow> Some (issue EpcHelper_GetPgwNode (s\<lparr>pgw := Some PgwNode\<rparr>)))"

text \<open>
  \<open>c.Create(n)\<close> appends \<open>n\<close> new nodes to the container \<open>c\<close>. The container is given
  by its field of the state and that field's update.
\<close>

definition Create ::
  "(state \<Rightarrow> Node list) \<Rightarrow> ((Node list \<Rightarrow> Node list) \<Rightarrow> state \<Rightarrow> state) \<Rightarrow> string \<Rightarrow> nat
     \<Rightarrow> state \<Rightarrow> state" where
  "Create container container_update name n s =
     issue (NodeContainer_Create name n)
       (container_update (\<lambda>c. c @ map Node [node_count s ..< node_count s + n])
          (s\<lparr>node_count := node_count s + n\<rparr>))"

definition Get_remoteHost :: "nat \<Rightarrow> state \<Rightarrow> state option" where
  "Get_remoteHost i s =
     (if i < length (remoteHostContainer s)
      then Some (issue (NodeContainer_Get ''remoteHostContainer'' i)
                   (s\<lparr>remoteHost := Some (remoteHostContainer s ! i)\<rparr>))
      else None)"

definition InternetStack_Install :: "Node list \<Rightarrow> state \<Rightarrow> state" where
  "InternetStack_Install c s =
     issue (InternetStackHelper_Install c) (s\<lparr>internet_installed := internet_installed s @ c\<rparr>)"

definition SetDeviceAttribute :: "string \<Rightarrow> AttributeValue \<Rightarrow> state \<Rightarrow> state" where
  "SetDeviceAttribute name v s =
     issue (PointToPointHelper_SetDeviceAttribute name v)
       (s\<lparr>p2ph := (p2ph s)\<lparr>m_deviceFactory := (m_deviceFactory (p2ph s))(name \<mapsto> v)\<rparr>\<rparr>)"

definition SetChannelAttribute :: "string \<Rightarrow> AttributeValue \<Rightarrow> state \<Rightarrow> state" where
  "SetChannelAttribute name v s =
     issue (PointToPointHelper_SetChannelAttribute name v)
       (s\<lparr>p2ph := (p2ph s)\<lparr>m_channelFactory := (m_channelFactory (p2ph s))(name \<mapsto> v)\<rparr>\<rparr>)"

text \<open>
  \<open>p2ph.Install(a, b)\<close> makes one channel and one device on each of the two nodes, with
  the attributes the helper holds, and returns the two devices in that order.
\<close>

definition new_device :: "PointToPointHelper \<Rightarrow> Node \<Rightarrow> NetDevice" where
  "new_device h n =
     \<lparr>device_node = n, device_attributes = m_deviceFactory h,
      channel_attributes = m_channelFactory h\<rparr>"

definition Install_link :: "Node option \<Rightarrow> Node option \<Rightarrow> state \<Rightarrow> state option" where
  "Install_link a b s =
     (case (a, b) of
        (Some x, Some y) \<Rightarrow>
          Some (issue (PointToPointHelper_Install x y)
                  (s\<lparr>internetDevices := [new_device (p2ph s) x, new_device (p2ph s) y],
                     p2p_channels := p2p_channels s @ [(x, y)]\<rparr>))
      | _ \<Rightarrow> None)"

definition SetBase :: "Ipv4Address \<Rightarrow> Ipv4Mask \<Rightarrow> state \<Rightarrow> state" where
  "SetBase network netmask s =
     issue (Ipv4AddressHelper_SetBase network netmask)
       (s\<lparr>ipv4h := \<lparr>m_base = Some (network, netmask), m_address = 1\<rparr>\<rparr>)"

fun assign_each :: "Ipv4Address \<Rightarrow> Ipv4Mask \<Rightarrow> nat \<Rightarrow> NetDevice list \<Rightarrow> Ipv4Interface list" where
  "assign_each network netmask k [] = []"
| "assign_each network netmask k (d # ds) =
     \<lparr>interface_node = device_node d, interface_address = NewAddress network netmask k\<rparr>
       # assign_each network netmask (Suc k) ds"

definition Assign :: "NetDevice list \<Rightarrow> state \<Rightarrow> state option" where
  "Assign devices s =
     (case m_base (ipv4h s) of
        None \<Rightarrow> None
      | Some (network, netmask) \<Rightarrow>
          Some (issue (Ipv4AddressHelper_Assign (map device_node devices))
                  (s\<lparr>internetIpIfaces := assign_each network netmask (m_address (ipv4h s)) devices,
                     ipv4h := (ipv4h s)\<lparr>m_address := m_address (ipv4h s) + length devices\<rparr>\<rparr>)))"

definition GetAddress :: "nat \<Rightarrow> state \<Rightarrow> state option" where
  "GetAddress i s =
     (if i < length (internetIpIfaces s)
      then Some (issue (Ipv4InterfaceContainer_GetAddress i)
                   (s\<lparr>remoteHostAddr := Some (interface_address (internetIpIfaces s ! i))\<rparr>))
      else None)"

text \<open>
  \<open>GetStaticRouting(remoteHost->GetObject<Ipv4>())\<close>: the node has an \<open>Ipv4\<close> object once
  an Internet stack is installed on it; with none, the pointer is null.
\<close>

definition GetStaticRouting :: "Node option \<Rightarrow> state \<Rightarrow> state option" where
  "GetStaticRouting host s =
     (case host of
        None \<Rightarrow> None
      | Some n \<Rightarrow>
          if n \<in> set (internet_installed s)
          then Some (issue (Ipv4StaticRoutingHelper_GetStaticRouting n)
                       (s\<lparr>remoteHostStaticRouting := Some n\<rparr>))
          else None)"

definition AddNetworkRouteTo :: "Ipv4Address \<Rightarrow> Ipv4Mask \<Rightarrow> nat \<Rightarrow> state \<Rightarrow> state option" where
  "AddNetworkRouteTo network netmask interface s =
     (case remoteHostStaticRouting s of
        None \<Rightarrow> None
      | Some n \<Rightarrow>
          Some (issue (Ipv4StaticRouting_AddNetworkRouteTo n network netmask interface)
                  (s\<lparr>static_routes :=
                       (static_routes s)(n := static_routes s n @ [(network, netmask, interface)])\<rparr>)))"

subsection \<open>The function \<open>main\<close>, paragraph by paragraph\<close>

text \<open>Lines 27 to 35.\<close>

definition command_line :: "ns3 \<Rightarrow> string list \<Rightarrow> state \<Rightarrow> state option" where
  "command_line fw argv s = do {
     let s = AddValue ''numEnb'' ''Number of eNBs'' To_numEnb s;
     let s = AddValue ''numUe'' ''Number of UEs per eNB'' To_numUe s;
     let s = AddValue ''simTime'' ''Total duration of the simulation [s])'' To_simTime s;
     let s = AddValue ''interPacketInterval'' ''Inter-packet interval [us])''
               To_interPacketInterval s;
     let s = AddValue ''harq'' ''Enable Hybrid ARQ'' To_harqEnabled s;
     let s = AddValue ''rlcAm'' ''Enable RLC-AM'' To_rlcAmEnabled s;
     Parse fw argv s
   }"

text \<open>Lines 37 to 42.\<close>

definition global_defaults :: "state \<Rightarrow> state" where
  "global_defaults s =
     (let s = SetDefault ''ns3::MmWaveHelper::RlcAmEnabled''
                (BooleanValue (rlcAmEnabled (vars s))) s;
          s = SetDefault ''ns3::MmWaveHelper::HarqEnabled''
                (BooleanValue (harqEnabled (vars s))) s;
          s = SetDefault ''ns3::MmWaveFlexTtiMacScheduler::HarqEnabled''
                (BooleanValue (harqEnabled (vars s))) s;
          s = SetDefault ''ns3::LteRlcAm::ReportBufferStatusTimer''
                (TimeValue (MicroSeconds 100.0)) s;
          s = SetDefault ''ns3::LteRlcUmLowLat::ReportBufferStatusTimer''
                (TimeValue (MicroSeconds 100.0)) s
      in s)"

text \<open>Lines 44 to 48.\<close>

definition helpers :: "state \<Rightarrow> state option" where
  "helpers s = do {
     let s = CreateObject_MmWaveHelper_step s;
     s \<leftarrow> SetSchedulerType ''ns3::MmWaveFlexTtiMacScheduler'' s;
     let s = CreateObject_EpcHelper_step s;
     s \<leftarrow> SetEpcHelper (epcHelper s) s;
     SetHarqEnabled (harqEnabled (vars s)) s
   }"

text \<open>Lines 50 to 53.\<close>

definition config_store :: "ns3 \<Rightarrow> string list \<Rightarrow> state \<Rightarrow> state option" where
  "config_store fw argv s = do {
     s \<leftarrow> ConfigureDefaults fw s;
     Parse fw argv s
   }"

text \<open>Lines 55 to 62.\<close>

definition remote_host :: "state \<Rightarrow> state option" where
  "remote_host s = do {
     s \<leftarrow> GetPgwNode s;
     let s = Create remoteHostContainer remoteHostContainer_update ''remoteHostContainer'' 1 s;
     s \<leftarrow> Get_remoteHost 0 s;
     Some (InternetStack_Install (remoteHostContainer s) s)
   }"

text \<open>Lines 64 to 74.\<close>

definition internet_link :: "state \<Rightarrow> state option" where
  "internet_link s = do {
     let s = SetDeviceAttribute ''DataRate'' (DataRateValue (DataRate ''100Gb/s'')) s;
     let s = SetDeviceAttribute ''Mtu'' (UintegerValue 1500) s;
     let s = SetChannelAttribute ''Delay'' (TimeValue (Seconds 0.010)) s;
     s \<leftarrow> Install_link (pgw s) (remoteHost s) s;
     let s = SetBase (Ipv4Address ''1.0.0.0'') (Ipv4Mask ''255.0.0.0'') s;
     s \<leftarrow> Assign (internetDevices s) s;
     GetAddress 1 s
   }"

text \<open>Lines 76 to 79.\<close>

definition static_route :: "state \<Rightarrow> state option" where
  "static_route s = do {
     s \<leftarrow> GetStaticRouting (remoteHost s) s;
     AddNetworkRouteTo (Ipv4Address ''7.0.0.0'') (Ipv4Mask ''255.0.0.0'') 1 s
   }"

text \<open>Lines 82 to 85. A \<open>uint16_t\<close> count widens to the \<open>uint32_t\<close> parameter unchanged.\<close>

definition node_containers :: "state \<Rightarrow> state" where
  "node_containers s =
     (let s = Create enbNodes enbNodes_update ''enbNodes'' (unat (numEnb (vars s))) s;
          s = Create ueNodes ueNodes_update ''ueNodes'' (unat (numUe (vars s))) s
      in s)"

text \<open>
  Lines 27 to 86 from given values of the eight variables, and \<open>main\<close>: the same from the
  values declared in lines 18 to 25.
\<close>

definition run :: "ns3 \<Rightarrow> string list \<Rightarrow> variables \<Rightarrow> state option" where
  "run fw argv v = do {
     s \<leftarrow> command_line fw argv (start v);
     let s = global_defaults s;
     s \<leftarrow> helpers s;
     s \<leftarrow> config_store fw argv s;
     s \<leftarrow> remote_host s;
     s \<leftarrow> internet_link s;
     s \<leftarrow> static_route s;
     Some (node_containers s)
   }"

definition main :: "ns3 \<Rightarrow> string list \<Rightarrow> state option" where
  "main fw argv = run fw argv declared"

subsection \<open>A small framework to run the script on\<close>

text \<open>
  Numbers are read as plain decimal digits, a switch with no text is toggled, an option
  that is not one of the script's is stored as an attribute default when its name starts
  with \<open>ns3::\<close> and refused otherwise, and no configuration file is loaded.
\<close>

fun digits :: "nat \<Rightarrow> string \<Rightarrow> nat option" where
  "digits acc [] = Some acc"
| "digits acc (c # cs) =
     (if 48 \<le> (of_char c :: nat) \<and> (of_char c :: nat) \<le> 57
      then digits (10 * acc + (of_char c - 48)) cs else None)"

definition decimal :: "string \<Rightarrow> nat option" where
  "decimal s = (if s = [] then None else digits 0 s)"

definition plain :: ns3 where
  "plain =
     \<lparr>read_uint16 = (\<lambda>s. case decimal s of
                            None \<Rightarrow> None
                          | Some n \<Rightarrow> if n < 65536 then Some (of_nat n) else None),
      read_double = (\<lambda>s. map_option of_nat (decimal s)),
      read_bool = (\<lambda>b s. if s = [] then Some (\<not> b)
                          else if s = ''1'' \<or> s = ''true'' then Some True
                          else if s = ''0'' \<or> s = ''false'' then Some False
                          else None),
      set_global_or_attribute =
        (\<lambda>name text d. if take 5 name = ''ns3::'' then Some (d(name \<mapsto> StringValue text))
                         else None),
      load_config_store = Some\<rparr>"

subsection \<open>Notions used to state the properties\<close>

text \<open>The six options registered by lines 29 to 34, in order.\<close>

definition script_options :: "item list" where
  "script_options =
     [(''numEnb'', ''Number of eNBs'', To_numEnb),
      (''numUe'', ''Number of UEs per eNB'', To_numUe),
      (''simTime'', ''Total duration of the simulation [s])'', To_simTime),
      (''interPacketInterval'', ''Inter-packet interval [us])'', To_interPacketInterval),
      (''harq'', ''Enable Hybrid ARQ'', To_harqEnabled),
      (''rlcAm'', ''Enable RLC-AM'', To_rlcAmEnabled)]"

text \<open>The option names that the arguments after the program name supply.\<close>

definition supplied_names :: "string list \<Rightarrow> string list" where
  "supplied_names argv = List.map_filter (\<lambda>a. map_option fst (GetOptionName a)) (drop 1 argv)"

text \<open>
  The state in which a run that reaches the end of \<open>main\<close> stops, written out: \<open>v1\<close> are
  the variables after the first \<open>Parse\<close>, \<open>v2\<close> after the second, \<open>d2\<close> the attribute
  defaults after the second. Lemma \<open>run_Some_iff\<close> below proves that this is what the
  steps compute.
\<close>

definition outcome :: "variables \<Rightarrow> variables \<Rightarrow> (string \<rightharpoonup> AttributeValue) \<Rightarrow> state" where
  "outcome v1 v2 d2 =
     \<lparr>vars = v2, cmd = script_options,
      mmwaveHelper =
        Some \<lparr>m_schedulerType = Some ''ns3::MmWaveFlexTtiMacScheduler'',
              m_epcHelper = Some MmWavePointToPointEpcHelper,
              m_harqEnabled = Some (harqEnabled v1)\<rparr>,
      epcHelper = Some MmWavePointToPointEpcHelper, pgw = Some PgwNode,
      remoteHostContainer = [Node 0], remoteHost = Some (Node 0),
      p2ph =
        \<lparr>m_deviceFactory =
           [''DataRate'' \<mapsto> DataRateValue (DataRate ''100Gb/s''),
            ''Mtu'' \<mapsto> UintegerValue 1500],
         m_channelFactory = [''Delay'' \<mapsto> TimeValue (Seconds 0.010)]\<rparr>,
      internetDevices =
        [\<lparr>device_node = PgwNode,
          device_attributes =
            [''DataRate'' \<mapsto> DataRateValue (DataRate ''100Gb/s''),
             ''Mtu'' \<mapsto> UintegerValue 1500],
          channel_attributes = [''Delay'' \<mapsto> TimeValue (Seconds 0.010)]\<rparr>,
         \<lparr>device_node = Node 0,
          device_attributes =
            [''DataRate'' \<mapsto> DataRateValue (DataRate ''100Gb/s''),
             ''Mtu'' \<mapsto> UintegerValue 1500],
          channel_attributes = [''Delay'' \<mapsto> TimeValue (Seconds 0.010)]\<rparr>],
      ipv4h = \<lparr>m_base = Some (Ipv4Address ''1.0.0.0'', Ipv4Mask ''255.0.0.0''),
                m_address = 3\<rparr>,
      internetIpIfaces =
        [\<lparr>interface_node = PgwNode,
          interface_address =
            NewAddress (Ipv4Address ''1.0.0.0'') (Ipv4Mask ''255.0.0.0'') 1\<rparr>,
         \<lparr>interface_node = Node 0,
          interface_address =
            NewAddress (Ipv4Address ''1.0.0.0'') (Ipv4Mask ''255.0.0.0'') 2\<rparr>],
      remoteHostAddr =
        Some (NewAddress (Ipv4Address ''1.0.0.0'') (Ipv4Mask ''255.0.0.0'') 2),
      remoteHostStaticRouting = Some (Node 0),
      ueNodes = map Node [1 + unat (numEnb v2) ..< 1 + unat (numEnb v2) + unat (numUe v2)],
      enbNodes = map Node [1 ..< 1 + unat (numEnb v2)],
      defaults = d2,
      node_count = 1 + unat (numEnb v2) + unat (numUe v2),
      internet_installed = [Node 0],
      p2p_channels = [(PgwNode, Node 0)],
      static_routes =
        (\<lambda>n. [])(Node 0 := [(Ipv4Address ''7.0.0.0'', Ipv4Mask ''255.0.0.0'', 1)]),
      trace =
        [CommandLine_AddValue ''numEnb'' To_numEnb,
         CommandLine_AddValue ''numUe'' To_numUe,
         CommandLine_AddValue ''simTime'' To_simTime,
         CommandLine_AddValue ''interPacketInterval'' To_interPacketInterval,
         CommandLine_AddValue ''harq'' To_harqEnabled,
         CommandLine_AddValue ''rlcAm'' To_rlcAmEnabled,
         CommandLine_Parse,
         Config_SetDefault ''ns3::MmWaveHelper::RlcAmEnabled''
           (BooleanValue (rlcAmEnabled v1)),
         Config_SetDefault ''ns3::MmWaveHelper::HarqEnabled''
           (BooleanValue (harqEnabled v1)),
         Config_SetDefault ''ns3::MmWaveFlexTtiMacScheduler::HarqEnabled''
           (BooleanValue (harqEnabled v1)),
         Config_SetDefault ''ns3::LteRlcAm::ReportBufferStatusTimer''
           (TimeValue (MicroSeconds 100)),
         Config_SetDefault ''ns3::LteRlcUmLowLat::ReportBufferStatusTimer''
           (TimeValue (MicroSeconds 100)),
         CreateObject_MmWaveHelper,
         MmWaveHelper_SetSchedulerType ''ns3::MmWaveFlexTtiMacScheduler'',
         CreateObject_MmWavePointToPointEpcHelper, MmWaveHelper_SetEpcHelper,
         MmWaveHelper_SetHarqEnabled (harqEnabled v1),
         ConfigStore_ConfigureDefaults, CommandLine_Parse,
         EpcHelper_GetPgwNode, NodeContainer_Create ''remoteHostContainer'' 1,
         NodeContainer_Get ''remoteHostContainer'' 0,
         InternetStackHelper_Install [Node 0],
         PointToPointHelper_SetDeviceAttribute ''DataRate''
           (DataRateValue (DataRate ''100Gb/s'')),
         PointToPointHelper_SetDeviceAttribute ''Mtu'' (UintegerValue 1500),
         PointToPointHelper_SetChannelAttribute ''Delay'' (TimeValue (Seconds 0.010)),
         PointToPointHelper_Install PgwNode (Node 0),
         Ipv4AddressHelper_SetBase (Ipv4Address ''1.0.0.0'') (Ipv4Mask ''255.0.0.0''),
         Ipv4AddressHelper_Assign [PgwNode, Node 0],
         Ipv4InterfaceContainer_GetAddress 1,
         Ipv4StaticRoutingHelper_GetStaticRouting (Node 0),
         Ipv4StaticRouting_AddNetworkRouteTo (Node 0) (Ipv4Address ''7.0.0.0'')
           (Ipv4Mask ''255.0.0.0'') 1,
         NodeContainer_Create ''enbNodes'' (unat (numEnb v2)),
         NodeContainer_Create ''ueNodes'' (unat (numUe v2))]\<rparr>"

text \<open>
  The steps that the design overview names, and the step a framework call belongs to.
  \<open>RunSimulation\<close> is the hand-over to the engine.
\<close>

datatype phase =
    ParseArguments | SetGlobalDefaults | InstantiateHelpers | ParseConfigStore
  | CreateRemoteHostAndLink | AssignAddresses | InstallStaticRoute | CreateNodeContainers
  | RunSimulation

fun phase_of :: "call \<Rightarrow> phase" where
  "phase_of (CommandLine_AddValue name r) = ParseArguments"
| "phase_of CommandLine_Parse = ParseArguments"
| "phase_of (Config_SetDefault name v) = SetGlobalDefaults"
| "phase_of CreateObject_MmWaveHelper = InstantiateHelpers"
| "phase_of (MmWaveHelper_SetSchedulerType name) = InstantiateHelpers"
| "phase_of CreateObject_MmWavePointToPointEpcHelper = InstantiateHelpers"
| "phase_of MmWaveHelper_SetEpcHelper = InstantiateHelpers"
| "phase_of (MmWaveHelper_SetHarqEnabled b) = InstantiateHelpers"
| "phase_of ConfigStore_ConfigureDefaults = ParseConfigStore"
| "phase_of EpcHelper_GetPgwNode = CreateRemoteHostAndLink"
| "phase_of (NodeContainer_Create name n) =
     (if name = ''remoteHostContainer'' then CreateRemoteHostAndLink else CreateNodeContainers)"
| "phase_of (NodeContainer_Get name i) = CreateRemoteHostAndLink"
| "phase_of (InternetStackHelper_Install c) = CreateRemoteHostAndLink"
| "phase_of (PointToPointHelper_SetDeviceAttribute name v) = CreateRemoteHostAndLink"
| "phase_of (PointToPointHelper_SetChannelAttribute name v) = CreateRemoteHostAndLink"
| "phase_of (PointToPointHelper_Install a b) = CreateRemoteHostAndLink"
| "phase_of (Ipv4AddressHelper_SetBase network netmask) = AssignAddresses"
| "phase_of (Ipv4AddressHelper_Assign c) = AssignAddresses"
| "phase_of (Ipv4InterfaceContainer_GetAddress i) = AssignAddresses"
| "phase_of (Ipv4StaticRoutingHelper_GetStaticRouting n) = InstallStaticRoute"
| "phase_of (Ipv4StaticRouting_AddNetworkRouteTo n network netmask i) = InstallStaticRoute"
| "phase_of Simulator_Run = RunSimulation"

text \<open>
  Two arguments are alike when they are equal, or both give the same one of the options
  \<open>simTime\<close> and \<open>interPacketInterval\<close>, each with a text of its own.
\<close>

definition alike :: "string \<Rightarrow> string \<Rightarrow> bool" where
  "alike a b \<longleftrightarrow>
     a = b \<or>
     (case (GetOptionName a, GetOptionName b) of
        (Some (n, s), Some (m, t)) \<Rightarrow> n = m \<and> (n = ''simTime'' \<or> n = ''interPacketInterval'')
      | _ \<Rightarrow> False)"

text \<open>Two valuations agree on the four variables that later statements read.\<close>

definition agree :: "variables \<Rightarrow> variables \<Rightarrow> bool" where
  "agree v v' \<longleftrightarrow>
     numEnb v = numEnb v' \<and> numUe v = numUe v' \<and> harqEnabled v = harqEnabled v' \<and>
     rlcAmEnabled v = rlcAmEnabled v'"

text \<open>
  What a run has configured: its final state with the four other variables blanked.
\<close>

definition configuration :: "state \<Rightarrow> state" where
  "configuration w =
     w\<lparr>vars := (vars w)\<lparr>simTime := 0, interPacketInterval := 0, minDistance := 0,
                         maxDistance := 0\<rparr>\<rparr>"

section \<open>The steps in closed form\<close>

lemma Parse_Some:
  "Parse fw argv s = Some s' \<longleftrightarrow>
     (\<exists>v d. handle_arguments fw (cmd s) (drop 1 argv) (vars s, defaults s) = Some (v, d) \<and>
            s' = s\<lparr>vars := v, defaults := d, trace := trace s @ [CommandLine_Parse]\<rparr>)"
  by (auto simp: Parse_def issue_def split: option.splits)

lemma command_line_eq:
  "command_line fw argv s =
     Parse fw argv
       (s\<lparr>cmd := cmd s @ script_options,
          trace := trace s @ map (\<lambda>i. CommandLine_AddValue (item_name i) (item_reference i)) script_options\<rparr>)"
  by (simp add: command_line_def AddValue_def issue_def script_options_def item_name_def item_reference_def)

lemma global_defaults_eq:
  "global_defaults s =
     s\<lparr>defaults := (defaults s)
          (''ns3::MmWaveHelper::RlcAmEnabled'' \<mapsto> BooleanValue (rlcAmEnabled (vars s)),
           ''ns3::MmWaveHelper::HarqEnabled'' \<mapsto> BooleanValue (harqEnabled (vars s)),
           ''ns3::MmWaveFlexTtiMacScheduler::HarqEnabled'' \<mapsto> BooleanValue (harqEnabled (vars s)),
           ''ns3::LteRlcAm::ReportBufferStatusTimer'' \<mapsto> TimeValue (MicroSeconds 100),
           ''ns3::LteRlcUmLowLat::ReportBufferStatusTimer'' \<mapsto> TimeValue (MicroSeconds 100)),
       trace := trace s @
         [Config_SetDefault ''ns3::MmWaveHelper::RlcAmEnabled'' (BooleanValue (rlcAmEnabled (vars s))),
          Config_SetDefault ''ns3::MmWaveHelper::HarqEnabled'' (BooleanValue (harqEnabled (vars s))),
          Config_SetDefault ''ns3::MmWaveFlexTtiMacScheduler::HarqEnabled''
            (BooleanValue (harqEnabled (vars s))),
          Config_SetDefault ''ns3::LteRlcAm::ReportBufferStatusTimer'' (TimeValue (MicroSeconds 100)),
          Config_SetDefault ''ns3::LteRlcUmLowLat::ReportBufferStatusTimer''
            (TimeValue (MicroSeconds 100))]\<rparr>"
  by (simp add: global_defaults_def SetDefault_def issue_def)

lemma helpers_eq:
  "helpers s =
     Some (s\<lparr>mmwaveHelper :=
               Some \<lparr>m_schedulerType = Some ''ns3::MmWaveFlexTtiMacScheduler'',
                     m_epcHelper = Some MmWavePointToPointEpcHelper,
                     m_harqEnabled = Some (harqEnabled (vars s))\<rparr>,
             epcHelper := Some MmWavePointToPointEpcHelper,
             trace := trace s @
               [CreateObject_MmWaveHelper,
                MmWaveHelper_SetSchedulerType ''ns3::MmWaveFlexTtiMacScheduler'',
                CreateObject_MmWavePointToPointEpcHelper, MmWaveHelper_SetEpcHelper,
                MmWaveHelper_SetHarqEnabled (harqEnabled (vars s))]\<rparr>)"
  by (simp add: helpers_def CreateObject_MmWaveHelper_step_def SetSchedulerType_def
      CreateObject_EpcHelper_step_def SetEpcHelper_def SetHarqEnabled_def issue_def)

lemma remote_host_eq:
  "epcHelper s = Some e \<Longrightarrow> remoteHostContainer s = [] \<Longrightarrow>
   remote_host s =
     Some (s\<lparr>pgw := Some PgwNode, remoteHostContainer := [Node (node_count s)],
             remoteHost := Some (Node (node_count s)), node_count := Suc (node_count s),
             internet_installed := internet_installed s @ [Node (node_count s)],
             trace := trace s @
               [EpcHelper_GetPgwNode, NodeContainer_Create ''remoteHostContainer'' 1,
                NodeContainer_Get ''remoteHostContainer'' 0,
                InternetStackHelper_Install [Node (node_count s)]]\<rparr>)"
  by (simp add: remote_host_def GetPgwNode_def Create_def Get_remoteHost_def
      InternetStack_Install_def issue_def)


lemma internet_link_eq:
  "pgw s = Some a \<Longrightarrow> remoteHost s = Some b \<Longrightarrow>
   internet_link s =
     Some (s\<lparr>p2ph :=
               \<lparr>m_deviceFactory = (m_deviceFactory (p2ph s))
                   (''DataRate'' \<mapsto> DataRateValue (DataRate ''100Gb/s''),
                    ''Mtu'' \<mapsto> UintegerValue 1500),
                m_channelFactory = (m_channelFactory (p2ph s))
                   (''Delay'' \<mapsto> TimeValue (Seconds 0.010))\<rparr>,
             internetDevices :=
               [\<lparr>device_node = a,
                 device_attributes = (m_deviceFactory (p2ph s))
                   (''DataRate'' \<mapsto> DataRateValue (DataRate ''100Gb/s''),
                    ''Mtu'' \<mapsto> UintegerValue 1500),
                 channel_attributes = (m_channelFactory (p2ph s))
                   (''Delay'' \<mapsto> TimeValue (Seconds 0.010))\<rparr>,
                \<lparr>device_node = b,
                 device_attributes = (m_deviceFactory (p2ph s))
                   (''DataRate'' \<mapsto> DataRateValue (DataRate ''100Gb/s''),
                    ''Mtu'' \<mapsto> UintegerValue 1500),
                 channel_attributes = (m_channelFactory (p2ph s))
                   (''Delay'' \<mapsto> TimeValue (Seconds 0.010))\<rparr>],
             p2p_channels := p2p_channels s @ [(a, b)],
             ipv4h := \<lparr>m_base = Some (Ipv4Address ''1.0.0.0'', Ipv4Mask ''255.0.0.0''),
                       m_address = 3\<rparr>,
             internetIpIfaces :=
               [\<lparr>interface_node = a,
                 interface_address =
                   NewAddress (Ipv4Address ''1.0.0.0'') (Ipv4Mask ''255.0.0.0'') 1\<rparr>,
                \<lparr>interface_node = b,
                 interface_address =
                   NewAddress (Ipv4Address ''1.0.0.0'') (Ipv4Mask ''255.0.0.0'') 2\<rparr>],
             remoteHostAddr :=
               Some (NewAddress (Ipv4Address ''1.0.0.0'') (Ipv4Mask ''255.0.0.0'') 2),
             trace := trace s @
               [PointToPointHelper_SetDeviceAttribute ''DataRate''
                  (DataRateValue (DataRate ''100Gb/s'')),
                PointToPointHelper_SetDeviceAttribute ''Mtu'' (UintegerValue 1500),
                PointToPointHelper_SetChannelAttribute ''Delay'' (TimeValue (Seconds 0.010)),
                PointToPointHelper_Install a b,
                Ipv4AddressHelper_SetBase (Ipv4Address ''1.0.0.0'') (Ipv4Mask ''255.0.0.0''),
                Ipv4AddressHelper_Assign [a, b],
                Ipv4InterfaceContainer_GetAddress 1]\<rparr>)"
  by (simp add: internet_link_def SetDeviceAttribute_def SetChannelAttribute_def
      Install_link_def new_device_def SetBase_def Assign_def GetAddress_def issue_def)

lemma static_route_eq:
  "remoteHost s = Some b \<Longrightarrow> b \<in> set (internet_installed s) \<Longrightarrow>
   static_route s =
     Some (s\<lparr>remoteHostStaticRouting := Some b,
             static_routes := (static_routes s)
               (b := static_routes s b @ [(Ipv4Address ''7.0.0.0'', Ipv4Mask ''255.0.0.0'', 1)]),
             trace := trace s @
               [Ipv4StaticRoutingHelper_GetStaticRouting b,
                Ipv4StaticRouting_AddNetworkRouteTo b (Ipv4Address ''7.0.0.0'')
                  (Ipv4Mask ''255.0.0.0'') 1]\<rparr>)"
  by (simp add: static_route_def GetStaticRouting_def AddNetworkRouteTo_def issue_def)

lemma node_containers_eq:
  "node_containers s =
     s\<lparr>enbNodes := enbNodes s @
          map Node [node_count s ..< node_count s + unat (numEnb (vars s))],
       ueNodes := ueNodes s @
          map Node [node_count s + unat (numEnb (vars s)) ..<
                    node_count s + unat (numEnb (vars s)) + unat (numUe (vars s))],
       node_count := node_count s + unat (numEnb (vars s)) + unat (numUe (vars s)),
       trace := trace s @
         [NodeContainer_Create ''enbNodes'' (unat (numEnb (vars s))),
          NodeContainer_Create ''ueNodes'' (unat (numUe (vars s)))]\<rparr>"
  by (simp add: node_containers_def Create_def issue_def)


lemma ConfigureDefaults_Some:
  "ConfigureDefaults fw s = Some s' \<longleftrightarrow>
     (\<exists>d. load_config_store fw (defaults s) = Some d \<and>
          s' = s\<lparr>defaults := d, trace := trace s @ [ConfigStore_ConfigureDefaults]\<rparr>)"
  by (auto simp: ConfigureDefaults_def issue_def split: option.splits)




lemma run_eq:
  "run fw argv v =
     (case handle_arguments fw script_options (drop 1 argv) (v, Map.empty) of
        None \<Rightarrow> None
      | Some (v1, d1) \<Rightarrow>
         (case load_config_store fw (defaults (global_defaults ((start v1)\<lparr>defaults := d1\<rparr>))) of
            None \<Rightarrow> None
          | Some d \<Rightarrow>
             (case handle_arguments fw script_options (drop 1 argv) (v1, d) of
                None \<Rightarrow> None
              | Some (v2, d2) \<Rightarrow> Some (outcome v1 v2 d2))))"
proof (cases "handle_arguments fw script_options (drop 1 argv) (v, Map.empty)")
  case None
  then show ?thesis
    by (simp add: run_def command_line_eq Parse_def start_def)
next
  case (Some p1)
  obtain v1 d1 where p1: "p1 = (v1, d1)" by (cases p1)
  define s1 where "s1 = (start v)\<lparr>cmd := script_options, vars := v1, defaults := d1,
      trace := map (\<lambda>i. CommandLine_AddValue (item_name i) (item_reference i)) script_options @ [CommandLine_Parse]\<rparr>"
  have 1: "command_line fw argv (start v) = Some s1"
    using Some by (simp add: p1 command_line_eq Parse_def start_def issue_def s1_def)
  show ?thesis
  proof (cases "load_config_store fw (defaults (global_defaults ((start v1)\<lparr>defaults := d1\<rparr>)))")
    case None
    then show ?thesis
      using 1 Some
      by (simp add: p1 run_def helpers_eq config_store_def ConfigureDefaults_def
          global_defaults_eq s1_def start_def)
  next
    case d: (Some d)
    show ?thesis
    proof (cases "handle_arguments fw script_options (drop 1 argv) (v1, d)")
      case None
      then show ?thesis
        using 1 Some d
        by (simp add: p1 run_def helpers_eq config_store_def ConfigureDefaults_def Parse_def
            global_defaults_eq s1_def start_def issue_def)
    next
      case p2: (Some p2)
      obtain v2 d2 where p2': "p2 = (v2, d2)" by (cases p2)
      have "run fw argv v = Some (outcome v1 v2 d2)"
        using 1 Some d p2
        apply (simp add: p1 p2' run_def helpers_eq config_store_def ConfigureDefaults_def Parse_def
            global_defaults_eq s1_def start_def issue_def)
        apply (simp add: remote_host_eq [where e = MmWavePointToPointEpcHelper])
        apply (simp add: internet_link_eq [where a = PgwNode and b = "Node 0"])
        apply (simp add: static_route_eq [where b = "Node 0"] node_containers_eq outcome_def
            script_options_def item_name_def item_reference_def)
        done
      then show ?thesis
        using Some d p2 by (simp add: p1 p2')
    qed
  qed
qed

lemma run_Some_iff:
  "run fw argv v = Some w \<longleftrightarrow>
   (\<exists>v1 d1 d v2 d2.
      handle_arguments fw script_options (drop 1 argv) (v, Map.empty) = Some (v1, d1) \<and>
      load_config_store fw (defaults (global_defaults ((start v1)\<lparr>defaults := d1\<rparr>))) = Some d \<and>
      handle_arguments fw script_options (drop 1 argv) (v1, d) = Some (v2, d2) \<and>
      w = outcome v1 v2 d2)"
  by (auto simp: run_eq split: option.splits)


lemma defaults_global_defaults:
  "defaults (global_defaults s) =
     (defaults s)
       (''ns3::MmWaveHelper::RlcAmEnabled'' \<mapsto> BooleanValue (rlcAmEnabled (vars s)),
        ''ns3::MmWaveHelper::HarqEnabled'' \<mapsto> BooleanValue (harqEnabled (vars s)),
        ''ns3::MmWaveFlexTtiMacScheduler::HarqEnabled'' \<mapsto> BooleanValue (harqEnabled (vars s)),
        ''ns3::LteRlcAm::ReportBufferStatusTimer'' \<mapsto> TimeValue (MicroSeconds 100),
        ''ns3::LteRlcUmLowLat::ReportBufferStatusTimer'' \<mapsto> TimeValue (MicroSeconds 100))"
  by (simp add: global_defaults_eq)

subsection \<open>What parsing does to the variables\<close>

lemma handle_arguments_untouched:
  assumes "set (List.map_filter (\<lambda>a. map_option fst (GetOptionName a)) args)
             \<inter> set (map item_name items) = {}"
      and "handle_arguments fw items args (v, d) = Some (v', d')"
  shows "v' = v"
  using assms
proof (induction args arbitrary: d)
  case Nil
  then show ?case by simp
next
  case (Cons a args)
  show ?case
  proof (cases "GetOptionName a")
    case None
    with Cons show ?thesis by (simp add: map_filter_simps)
  next
    case (Some p)
    obtain n t where p: "p = (n, t)" by (cases p)
    from Cons.prems(1) Some p have n: "n \<notin> set (map item_name items)"
      and rest: "set (List.map_filter (\<lambda>a. map_option fst (GetOptionName a)) args)
             \<inter> set (map item_name items) = {}"
      by (auto simp: map_filter_simps)
    from n have f: "find (\<lambda>i. item_name i = n) items = None"
      by (auto simp: find_None_iff)
    from Cons.prems(2) Some p f obtain d'' where
      "handle_arguments fw items args (v, d'') = Some (v', d')"
      by (auto simp: HandleArgument_def split: option.splits)
    with Cons.IH rest show ?thesis by blast
  qed
qed

lemma item_Parse_numEnb:
  "item_Parse fw r t v = Some va \<Longrightarrow> item_Parse fw r t v' = Some vb \<Longrightarrow>
   (numEnb va = numEnb v \<and> numEnb vb = numEnb v') \<or> numEnb va = numEnb vb"
  by (cases r) auto

lemma item_Parse_numUe:
  "item_Parse fw r t v = Some va \<Longrightarrow> item_Parse fw r t v' = Some vb \<Longrightarrow>
   (numUe va = numUe v \<and> numUe vb = numUe v') \<or> numUe va = numUe vb"
  by (cases r) auto

lemma handle_arguments_counts:
  assumes "handle_arguments fw items args (v, d) = Some (v1, d1)"
      and "handle_arguments fw items args (v', d') = Some (v2, d2)"
  shows "((numEnb v1 = numEnb v \<and> numEnb v2 = numEnb v') \<or> numEnb v1 = numEnb v2) \<and>
         ((numUe v1 = numUe v \<and> numUe v2 = numUe v') \<or> numUe v1 = numUe v2)"
  using assms
proof (induction args arbitrary: v d v' d')
  case Nil
  then show ?case by simp
next
  case (Cons a args)
  show ?case
  proof (cases "GetOptionName a")
    case None
    with Cons show ?thesis by simp
  next
    case (Some p)
    obtain n t where p: "p = (n, t)" by (cases p)
    from Cons.prems Some p obtain va da vb db where
      a: "HandleArgument fw items n t (v, d) = Some (va, da)"
        "handle_arguments fw items args (va, da) = Some (v1, d1)" and
      b: "HandleArgument fw items n t (v', d') = Some (vb, db)"
        "handle_arguments fw items args (vb, db) = Some (v2, d2)"
      by (auto split: option.splits)
    from a(1) b(1) have
      "((numEnb va = numEnb v \<and> numEnb vb = numEnb v') \<or> numEnb va = numEnb vb) \<and>
       ((numUe va = numUe v \<and> numUe vb = numUe v') \<or> numUe va = numUe vb)"
      by (cases "find (\<lambda>i. item_name i = n) items")
        (auto simp: HandleArgument_def dest: item_Parse_numEnb item_Parse_numUe)
    with Cons.IH [OF a(2) b(2)] show ?thesis by auto
  qed
qed

lemma handle_arguments_again:
  assumes "handle_arguments fw items args (v, d) = Some (v1, d1)"
      and "handle_arguments fw items args (v1, d') = Some (v2, d2)"
  shows "numEnb v2 = numEnb v1" and "numUe v2 = numUe v1"
  using handle_arguments_counts [OF assms] by auto


lemma item_Parse_agree:
  "agree v v' \<Longrightarrow> item_Parse fw r t v = Some va \<Longrightarrow> item_Parse fw r t v' = Some vb \<Longrightarrow>
   agree va vb"
  by (cases r) (auto simp: agree_def)

lemma HandleArgument_agree:
  assumes "agree v v'"
      and "HandleArgument fw items n t (v, d) = Some (va, da)"
      and "HandleArgument fw items n t (v', d) = Some (vb, db)"
  shows "agree va vb \<and> da = db"
  using assms
  by (cases "find (\<lambda>i. item_name i = n) items")
    (auto simp: HandleArgument_def dest: item_Parse_agree)

lemma HandleArgument_unused:
  assumes "agree v v'"
      and "n = ''simTime'' \<or> n = ''interPacketInterval''"
      and "HandleArgument fw script_options n s (v, d) = Some (va, da)"
      and "HandleArgument fw script_options n t (v', d) = Some (vb, db)"
  shows "agree va vb \<and> da = db"
  using assms
  by (auto simp: HandleArgument_def script_options_def item_name_def item_reference_def
      agree_def)

lemma handle_arguments_alike:
  assumes "list_all2 alike args args'"
      and "agree v v'"
      and "handle_arguments fw script_options args (v, d) = Some (v1, d1)"
      and "handle_arguments fw script_options args' (v', d) = Some (v2, d2)"
  shows "agree v1 v2 \<and> d1 = d2"
  using assms
proof (induction args args' arbitrary: v v' d rule: list_all2_induct)
  case Nil
  then show ?case by simp
next
  case (Cons a args b args')
  show ?case
  proof (cases "a = b")
    case True
    show ?thesis
    proof (cases "GetOptionName a")
      case None
      with Cons True show ?thesis by simp
    next
      case (Some p)
      obtain n t where p: "p = (n, t)" by (cases p)
      from Cons.prems Some p True obtain va da vb db where
        a: "HandleArgument fw script_options n t (v, d) = Some (va, da)"
          "handle_arguments fw script_options args (va, da) = Some (v1, d1)" and
        b: "HandleArgument fw script_options n t (v', d) = Some (vb, db)"
          "handle_arguments fw script_options args' (vb, db) = Some (v2, d2)"
        by (auto split: option.splits)
      from HandleArgument_agree [OF Cons.prems(1) a(1) b(1)]
      have "agree va vb" and "da = db" by simp_all
      with Cons.IH [of va vb da] a(2) b(2) show ?thesis by simp
    qed
  next
    case False
    with Cons.hyps(1) obtain n s t where
      ga: "GetOptionName a = Some (n, s)" and gb: "GetOptionName b = Some (n, t)" and
      n: "n = ''simTime'' \<or> n = ''interPacketInterval''"
      by (auto simp: alike_def split: option.splits)
    from Cons.prems ga gb obtain va da vb db where
      a: "HandleArgument fw script_options n s (v, d) = Some (va, da)"
        "handle_arguments fw script_options args (va, da) = Some (v1, d1)" and
      b: "HandleArgument fw script_options n t (v', d) = Some (vb, db)"
        "handle_arguments fw script_options args' (vb, db) = Some (v2, d2)"
      by (auto split: option.splits)
    from HandleArgument_unused [OF Cons.prems(1) n a(1) b(1)]
    have "agree va vb" and "da = db" by simp_all
    with Cons.IH [of va vb da] a(2) b(2) show ?thesis by simp
  qed
qed

lemma configuration_outcome:
  assumes "agree v1 v1'" and "agree v2 v2'"
  shows "configuration (outcome v1 v2 d2) = configuration (outcome v1' v2' d2)"
proof -
  from assms(2) have
    "v2\<lparr>simTime := 0, interPacketInterval := 0, minDistance := 0, maxDistance := 0\<rparr> =
     v2'\<lparr>simTime := 0, interPacketInterval := 0, minDistance := 0, maxDistance := 0\<rparr>"
    by (intro variables.equality) (simp_all add: agree_def)
  with assms show ?thesis
    by (simp add: configuration_def outcome_def agree_def)
qed


subsection \<open>Runs on the small framework\<close>

lemma main_Some_iff:
  "main fw argv = Some w \<longleftrightarrow>
   (\<exists>v1 d1 d v2 d2.
      handle_arguments fw script_options (drop 1 argv) (declared, Map.empty) = Some (v1, d1) \<and>
      load_config_store fw (defaults (global_defaults ((start v1)\<lparr>defaults := d1\<rparr>))) = Some d \<and>
      handle_arguments fw script_options (drop 1 argv) (v1, d) = Some (v2, d2) \<and>
      w = outcome v1 v2 d2)"
  by (simp add: main_def run_Some_iff)

lemmas evaluate =
  main_def run_eq plain_def GetOptionName_def HandleArgument_def script_options_def
  item_name_def item_reference_def decimal_def declared_def

lemma plain_no_arguments:
  "main plain [''droneConfig''] =
     Some (outcome declared declared (defaults (global_defaults (start declared))))"
  by (simp add: main_def run_eq plain_def start_def)

lemma plain_counts:
  "main plain [''droneConfig'', ''--numEnb=3'', ''--numUe=5''] =
     Some (outcome (declared\<lparr>numEnb := 3, numUe := 5\<rparr>) (declared\<lparr>numEnb := 3, numUe := 5\<rparr>)
             (defaults (global_defaults (start declared))))"
  by (simp add: evaluate start_def defaults_global_defaults)

lemma plain_other_arguments:
  "main plain [''droneConfig'', ''scenario'', ''--ns3::ConfigStore::Mode=None''] =
     Some (outcome declared declared
             ((defaults (global_defaults (start declared)))
                (''ns3::ConfigStore::Mode'' \<mapsto> StringValue ''None'')))"
  by (simp add: evaluate start_def defaults_global_defaults)

lemma plain_switches:
  "main plain [''droneConfig'', ''--harq'', ''--rlcAm=1''] =
     Some (outcome (declared\<lparr>harqEnabled := False, rlcAmEnabled := True\<rparr>)
             (declared\<lparr>harqEnabled := True, rlcAmEnabled := True\<rparr>)
             (defaults (global_defaults
                (start (declared\<lparr>harqEnabled := False, rlcAmEnabled := True\<rparr>)))))"
  by (simp add: evaluate start_def defaults_global_defaults)

lemma plain_zero:
  "main plain [''droneConfig'', ''--numEnb=0'', ''--numUe=0''] =
     Some (outcome (declared\<lparr>numEnb := 0, numUe := 0\<rparr>) (declared\<lparr>numEnb := 0, numUe := 0\<rparr>)
             (defaults (global_defaults (start declared))))"
  by (simp add: evaluate start_def defaults_global_defaults)

lemma plain_times:
  "main plain [''droneConfig'', ''--simTime=5'', ''--numEnb=2'', ''--interPacketInterval=20''] =
     Some (outcome (declared\<lparr>numEnb := 2, simTime := 5, interPacketInterval := 20\<rparr>)
             (declared\<lparr>numEnb := 2, simTime := 5, interPacketInterval := 20\<rparr>)
             (defaults (global_defaults (start declared))))"
  by (simp add: evaluate start_def defaults_global_defaults)

lemma plain_other_times:
  "main plain [''droneConfig'', ''--simTime=9'', ''--numEnb=2'', ''--interPacketInterval=50''] =
     Some (outcome (declared\<lparr>numEnb := 2, simTime := 9, interPacketInterval := 50\<rparr>)
             (declared\<lparr>numEnb := 2, simTime := 9, interPacketInterval := 50\<rparr>)
             (defaults (global_defaults (start declared))))"
  by (simp add: evaluate start_def defaults_global_defaults)

section \<open>The properties\<close>

text \<open>
  C1, as the code has it. Every run that reaches the end of \<open>main\<close> has issued no call
  that enters the engine's event loop: the last framework call is \<open>ueNodes.Create(numUe)\<close>,
  after which \<open>main\<close> returns.
\<close>

theorem main_returns_without_running_simulator:
  assumes "main fw argv = Some w"
  shows "Simulator_Run \<notin> set (trace w) \<and> RunSimulation \<notin> set (map phase_of (trace w)) \<and>
         last (trace w) = NodeContainer_Create ''ueNodes'' (unat (numUe (vars w)))"
proof -
  from assms obtain v1 v2 d2 where "w = outcome v1 v2 d2"
    by (auto simp: main_Some_iff)
  then show ?thesis
    by (simp add: outcome_def)
qed

theorem main_returns_without_running_simulator_witness:
  "Simulator_Run \<notin> set (trace (the (main plain [''droneConfig'']))) \<and>
   last (trace (the (main plain [''droneConfig'']))) = NodeContainer_Create ''ueNodes'' 1"
  using main_returns_without_running_simulator [OF plain_no_arguments]
  by (simp add: plain_no_arguments outcome_def declared_def)

text \<open>
  C1, as the specification states it, fails: the run with no arguments reaches the end of
  \<open>main\<close> and has not handed control to the event loop.
\<close>

theorem no_hand_over_counterexample:
  "main plain [''droneConfig''] \<noteq> None \<and>
   Simulator_Run \<notin> set (trace (the (main plain [''droneConfig''])))"
  by (simp add: plain_no_arguments outcome_def)

text \<open>
  C2. In every run that reaches the end of \<open>main\<close> the options registered with the
  command line are exactly six: \<open>numEnb\<close> and \<open>numUe\<close> bound to 16-bit unsigned
  variables, \<open>simTime\<close> and \<open>interPacketInterval\<close> to doubles, \<open>harq\<close> and \<open>rlcAm\<close>
  to booleans. When the arguments supply none of these six names, the variables hold their
  declared values after the first parse and at the end: \<open>numEnb = 1\<close>, \<open>numUe = 1\<close>,
  \<open>simTime = 2.0\<close>, \<open>interPacketInterval = 100\<close>, \<open>harq = true\<close>, \<open>rlcAm = false\<close>.
\<close>

theorem command_line_surface_and_defaults:
  assumes "main fw argv = Some w"
  shows "map (\<lambda>i. (item_name i, item_reference i, type_of_reference (item_reference i))) (cmd w) =
           [(''numEnb'', To_numEnb, Uint16_t), (''numUe'', To_numUe, Uint16_t),
            (''simTime'', To_simTime, Double),
            (''interPacketInterval'', To_interPacketInterval, Double),
            (''harq'', To_harqEnabled, Bool), (''rlcAm'', To_rlcAmEnabled, Bool)] \<and>
         (set (supplied_names argv) \<inter>
            {''numEnb'', ''numUe'', ''simTime'', ''interPacketInterval'', ''harq'', ''rlcAm''} = {}
          \<longrightarrow>
            vars w =
              \<lparr>numEnb = 1, numUe = 1, simTime = 2.0, interPacketInterval = 100,
               minDistance = 10.0, maxDistance = 150.0, harqEnabled = True,
               rlcAmEnabled = False\<rparr> \<and>
            map_option vars (command_line fw argv (start declared)) = Some (vars w))"
proof -
  from assms obtain v1 d1 d v2 d2 where
    h1: "handle_arguments fw script_options (drop 1 argv) (declared, Map.empty) = Some (v1, d1)" and
    h3: "handle_arguments fw script_options (drop 1 argv) (v1, d) = Some (v2, d2)" and
    w: "w = outcome v1 v2 d2"
    by (auto simp: main_Some_iff)
  have surface: "map (\<lambda>i. (item_name i, item_reference i, type_of_reference (item_reference i))) (cmd w) =
           [(''numEnb'', To_numEnb, Uint16_t), (''numUe'', To_numUe, Uint16_t),
            (''simTime'', To_simTime, Double),
            (''interPacketInterval'', To_interPacketInterval, Double),
            (''harq'', To_harqEnabled, Bool), (''rlcAm'', To_rlcAmEnabled, Bool)]"
    by (simp add: w outcome_def script_options_def item_name_def item_reference_def)
  have names: "set (map item_name script_options) =
      {''numEnb'', ''numUe'', ''simTime'', ''interPacketInterval'', ''harq'', ''rlcAm''}"
    by (simp add: script_options_def item_name_def)
  have rest: "vars w = declared \<and>
      map_option vars (command_line fw argv (start declared)) = Some (vars w)"
    if none: "set (supplied_names argv) \<inter>
      {''numEnb'', ''numUe'', ''simTime'', ''interPacketInterval'', ''harq'', ''rlcAm''} = {}"
  proof -
    from none have disjoint:
      "set (List.map_filter (\<lambda>a. map_option fst (GetOptionName a)) (drop 1 argv))
         \<inter> set (map item_name script_options) = {}"
      by (simp only: names supplied_names_def)
    from handle_arguments_untouched [OF disjoint h1] have v1: "v1 = declared" .
    from handle_arguments_untouched [OF disjoint h3] have v2: "v2 = declared"
      by (simp add: v1)
    from h1 show ?thesis
      by (simp add: w outcome_def v1 v2 command_line_eq Parse_def start_def issue_def)
  qed
  from surface rest show ?thesis
    by (auto simp: declared_def)
qed

theorem command_line_surface_and_defaults_witness:
  "set (supplied_names [''droneConfig'', ''scenario'', ''--ns3::ConfigStore::Mode=None'']) \<inter>
     {''numEnb'', ''numUe'', ''simTime'', ''interPacketInterval'', ''harq'', ''rlcAm''} = {} \<and>
   vars (the (main plain [''droneConfig'', ''scenario'', ''--ns3::ConfigStore::Mode=None''])) =
     \<lparr>numEnb = 1, numUe = 1, simTime = 2.0, interPacketInterval = 100,
      minDistance = 10.0, maxDistance = 150.0, harqEnabled = True, rlcAmEnabled = False\<rparr>"
proof -
  have none:
    "set (supplied_names [''droneConfig'', ''scenario'', ''--ns3::ConfigStore::Mode=None'']) \<inter>
     {''numEnb'', ''numUe'', ''simTime'', ''interPacketInterval'', ''harq'', ''rlcAm''} = {}"
    by (simp add: supplied_names_def map_filter_simps GetOptionName_def)
  with command_line_surface_and_defaults [OF plain_other_arguments] show ?thesis
    by (simp add: plain_other_arguments)
qed

text \<open>
  C3. In every run that reaches the end of \<open>main\<close>, the eNB container holds exactly
  \<open>numEnb\<close> nodes and the UE container exactly \<open>numUe\<close> nodes, whatever \<open>numEnb\<close> is;
  the nodes of the two containers are pairwise different.
\<close>

theorem containers_hold_parsed_counts:
  assumes "main fw argv = Some w"
  shows "length (enbNodes w) = unat (numEnb (vars w)) \<and>
         length (ueNodes w) = unat (numUe (vars w)) \<and>
         distinct (enbNodes w @ ueNodes w)"
proof -
  from assms obtain v1 v2 d2 where "w = outcome v1 v2 d2"
    by (auto simp: main_Some_iff)
  then show ?thesis
    by (auto simp: outcome_def distinct_map inj_on_def)
qed

theorem containers_hold_parsed_counts_witness:
  "length (enbNodes (the (main plain [''droneConfig'', ''--numEnb=3'', ''--numUe=5'']))) = 3 \<and>
   length (ueNodes (the (main plain [''droneConfig'', ''--numEnb=3'', ''--numUe=5'']))) = 5"
  using containers_hold_parsed_counts [OF plain_counts]
  by (simp add: plain_counts outcome_def)

text \<open>
  C4, as the code has it. In every run that reaches the end of \<open>main\<close> the framework calls
  fall into these steps, in this order: parse the command-line arguments, set the global
  defaults, instantiate the two helpers, parse the configuration store, parse the
  command-line arguments a second time, create the remote host and the point-to-point
  link, assign the addresses, install the static route, create the eNB and UE containers.
\<close>

theorem order_of_steps:
  assumes "main fw argv = Some w"
  shows "remdups_adj (map phase_of (trace w)) =
           [ParseArguments, SetGlobalDefaults, InstantiateHelpers, ParseConfigStore,
            ParseArguments, CreateRemoteHostAndLink, AssignAddresses, InstallStaticRoute,
            CreateNodeContainers] \<and>
         length (trace w) = 34 \<and>
         trace w ! 17 = ConfigStore_ConfigureDefaults \<and> trace w ! 18 = CommandLine_Parse"
proof -
  from assms obtain v1 v2 d2 where "w = outcome v1 v2 d2"
    by (auto simp: main_Some_iff)
  then show ?thesis
    by (simp add: outcome_def)
qed

theorem order_of_steps_witness:
  "remdups_adj (map phase_of (trace (the (main plain [''droneConfig''])))) =
     [ParseArguments, SetGlobalDefaults, InstantiateHelpers, ParseConfigStore,
      ParseArguments, CreateRemoteHostAndLink, AssignAddresses, InstallStaticRoute,
      CreateNodeContainers]"
  using order_of_steps [OF plain_no_arguments]
  by (simp add: plain_no_arguments)

text \<open>
  C4, as the specification states it, fails: in the run with no arguments the steps are
  not the eight of the overview in a row, since the command line is parsed again after
  the configuration store.
\<close>

theorem order_without_second_parse_counterexample:
  "main plain [''droneConfig''] \<noteq> None \<and>
   trace (the (main plain [''droneConfig''])) ! 17 = ConfigStore_ConfigureDefaults \<and>
   trace (the (main plain [''droneConfig''])) ! 18 = CommandLine_Parse \<and>
   trace (the (main plain [''droneConfig''])) ! 19 = EpcHelper_GetPgwNode \<and>
   remdups_adj (map phase_of (trace (the (main plain [''droneConfig''])))) \<noteq>
     [ParseArguments, SetGlobalDefaults, InstantiateHelpers, ParseConfigStore,
      CreateRemoteHostAndLink, AssignAddresses, InstallStaticRoute, CreateNodeContainers]"
  by (simp add: plain_no_arguments outcome_def)

text \<open>
  C5. In every run that reaches the end of \<open>main\<close>, let \<open>s\<close> be the state after the first
  parse, so that \<open>harq\<close> and \<open>rlcAm\<close> are the values of \<open>harqEnabled\<close> and
  \<open>rlcAmEnabled\<close> in \<open>s\<close>. After lines 37 to 42 no helper has been constructed yet and the
  attribute defaults are: \<open>ns3::MmWaveHelper::RlcAmEnabled\<close> is \<open>rlcAm\<close>,
  \<open>ns3::MmWaveHelper::HarqEnabled\<close> and \<open>ns3::MmWaveFlexTtiMacScheduler::HarqEnabled\<close>
  are \<open>harq\<close>, and the \<open>ReportBufferStatusTimer\<close> of \<open>LteRlcAm\<close> and of
  \<open>LteRlcUmLowLat\<close> are 100 microseconds. The rest of \<open>main\<close>, which starts by
  constructing the helpers, runs from that state, and at the end the HARQ setting of the
  \<open>MmWaveHelper\<close> is \<open>harq\<close> as well.
\<close>

theorem global_defaults_before_helpers:
  assumes "main fw argv = Some w"
  shows "\<exists>s. command_line fw argv (start declared) = Some s \<and>
             mmwaveHelper (global_defaults s) = None \<and>
             epcHelper (global_defaults s) = None \<and>
             defaults (global_defaults s) ''ns3::MmWaveHelper::RlcAmEnabled'' =
               Some (BooleanValue (rlcAmEnabled (vars s))) \<and>
             defaults (global_defaults s) ''ns3::MmWaveHelper::HarqEnabled'' =
               Some (BooleanValue (harqEnabled (vars s))) \<and>
             defaults (global_defaults s) ''ns3::MmWaveFlexTtiMacScheduler::HarqEnabled'' =
               Some (BooleanValue (harqEnabled (vars s))) \<and>
             defaults (global_defaults s) ''ns3::LteRlcAm::ReportBufferStatusTimer'' =
               Some (TimeValue (MicroSeconds 100)) \<and>
             defaults (global_defaults s) ''ns3::LteRlcUmLowLat::ReportBufferStatusTimer'' =
               Some (TimeValue (MicroSeconds 100)) \<and>
             do {
               s \<leftarrow> helpers (global_defaults s);
               s \<leftarrow> config_store fw argv s;
               s \<leftarrow> remote_host s;
               s \<leftarrow> internet_link s;
               s \<leftarrow> static_route s;
               Some (node_containers s)
             } = Some w \<and>
             map_option m_harqEnabled (mmwaveHelper w) = Some (Some (harqEnabled (vars s)))"
proof -
  from assms obtain v1 d1 v2 d2 where
    h1: "handle_arguments fw script_options (drop 1 argv) (declared, Map.empty) = Some (v1, d1)" and
    w: "w = outcome v1 v2 d2"
    by (auto simp: main_Some_iff)
  define s where "s = (start declared)\<lparr>cmd := script_options, vars := v1, defaults := d1,
      trace := map (\<lambda>i. CommandLine_AddValue (item_name i) (item_reference i)) script_options @
        [CommandLine_Parse]\<rparr>"
  have 1: "command_line fw argv (start declared) = Some s"
    using h1 by (simp add: command_line_eq Parse_def start_def issue_def s_def)
  have 2: "vars s = v1" "mmwaveHelper s = None" "epcHelper s = None"
    by (simp_all add: s_def start_def)
  have 3: "do {
               s \<leftarrow> helpers (global_defaults s);
               s \<leftarrow> config_store fw argv s;
               s \<leftarrow> remote_host s;
               s \<leftarrow> internet_link s;
               s \<leftarrow> static_route s;
               Some (node_containers s)
             } = Some w"
    using assms by (simp add: main_def run_def 1 Let_def)
  have 4: "map_option m_harqEnabled (mmwaveHelper w) = Some (Some (harqEnabled v1))"
    by (simp add: w outcome_def)
  have 5: "mmwaveHelper (global_defaults s) = None" "epcHelper (global_defaults s) = None"
    by (simp_all add: global_defaults_eq 2)
  show ?thesis
    by (rule exI [of _ s]) (simp add: 1 2 3 4 5 defaults_global_defaults)
qed

theorem global_defaults_before_helpers_witness:
  "map_option m_harqEnabled
     (mmwaveHelper (the (main plain [''droneConfig'', ''--harq'', ''--rlcAm=1'']))) =
     Some (Some False) \<and>
   map_option (\<lambda>s. defaults (global_defaults s) ''ns3::MmWaveHelper::RlcAmEnabled'')
     (command_line plain [''droneConfig'', ''--harq'', ''--rlcAm=1''] (start declared)) =
     Some (Some (BooleanValue True))"
proof -
  from global_defaults_before_helpers [OF plain_switches] obtain s where
    s: "command_line plain [''droneConfig'', ''--harq'', ''--rlcAm=1''] (start declared) = Some s"
    and r: "defaults (global_defaults s) ''ns3::MmWaveHelper::RlcAmEnabled'' =
               Some (BooleanValue (rlcAmEnabled (vars s)))"
    by blast
  from s have "rlcAmEnabled (vars s) = True"
    by (auto simp: command_line_eq Parse_def start_def issue_def evaluate split: option.splits)
  with s r show ?thesis
    by (simp add: plain_switches outcome_def declared_def)
qed

text \<open>
  C6. In every run that reaches the end of \<open>main\<close> the remote-host container holds
  exactly one node, that node is the remote host and is none of the eNB or UE nodes, the
  Internet stack is installed on it, exactly one point-to-point link is installed, from
  the PGW node of the EPC helper to the remote host, and the two interfaces of the link
  have addresses handed out from base 1.0.0.0 under mask 255.0.0.0.
\<close>

theorem one_remote_host_one_link:
  assumes "main fw argv = Some w"
  shows "remoteHostContainer w = [Node 0] \<and> remoteHost w = Some (Node 0) \<and>
         Node 0 \<notin> set (enbNodes w @ ueNodes w) \<and>
         internet_installed w = [Node 0] \<and>
         pgw w = Some PgwNode \<and> p2p_channels w = [(PgwNode, Node 0)] \<and>
         map device_node (internetDevices w) = [PgwNode, Node 0] \<and>
         m_base (ipv4h w) = Some (Ipv4Address ''1.0.0.0'', Ipv4Mask ''255.0.0.0'') \<and>
         internetIpIfaces w =
           [\<lparr>interface_node = PgwNode,
             interface_address =
               NewAddress (Ipv4Address ''1.0.0.0'') (Ipv4Mask ''255.0.0.0'') 1\<rparr>,
            \<lparr>interface_node = Node 0,
             interface_address =
               NewAddress (Ipv4Address ''1.0.0.0'') (Ipv4Mask ''255.0.0.0'') 2\<rparr>]"
proof -
  from assms obtain v1 v2 d2 where "w = outcome v1 v2 d2"
    by (auto simp: main_Some_iff)
  then show ?thesis
    by (auto simp: outcome_def)
qed

theorem one_remote_host_one_link_witness:
  "remoteHostContainer (the (main plain [''droneConfig'', ''--numEnb=3'', ''--numUe=5''])) =
     [Node 0] \<and>
   p2p_channels (the (main plain [''droneConfig'', ''--numEnb=3'', ''--numUe=5''])) =
     [(PgwNode, Node 0)]"
  using one_remote_host_one_link [OF plain_counts]
  by (simp add: plain_counts)

text \<open>
  C7. In every run that reaches the end of \<open>main\<close> the static routes installed by the
  script are one route, in the static routing of the remote host: to network 7.0.0.0
  with mask 255.0.0.0 through interface 1. No other node has a route installed by the
  script, and the only routing calls are the one that obtains the remote host's static
  routing and the one that adds this route.
\<close>

theorem one_static_route:
  assumes "main fw argv = Some w"
  shows "remoteHost w = Some (Node 0) \<and> remoteHostStaticRouting w = Some (Node 0) \<and>
         static_routes w n =
           (if n = Node 0 then [(Ipv4Address ''7.0.0.0'', Ipv4Mask ''255.0.0.0'', 1)] else []) \<and>
         filter (\<lambda>c. phase_of c = InstallStaticRoute) (trace w) =
           [Ipv4StaticRoutingHelper_GetStaticRouting (Node 0),
            Ipv4StaticRouting_AddNetworkRouteTo (Node 0) (Ipv4Address ''7.0.0.0'')
              (Ipv4Mask ''255.0.0.0'') 1]"
proof -
  from assms obtain v1 v2 d2 where "w = outcome v1 v2 d2"
    by (auto simp: main_Some_iff)
  then show ?thesis
    by (simp add: outcome_def)
qed

theorem one_static_route_witness:
  "static_routes (the (main plain [''droneConfig''])) (Node 0) =
     [(Ipv4Address ''7.0.0.0'', Ipv4Mask ''255.0.0.0'', 1)] \<and>
   static_routes (the (main plain [''droneConfig''])) PgwNode = []"
  using one_static_route [OF plain_no_arguments, of "Node 0"]
    one_static_route [OF plain_no_arguments, of PgwNode]
  by (simp add: plain_no_arguments)

text \<open>
  C8. The script rejects nothing. Whenever the framework returns from the first parse
  (state \<open>s1\<close>) and, after lines 37 to 48, from the configuration store and the second
  parse (state \<open>s2\<close>), \<open>main\<close> runs to its end, whatever values were parsed, zero
  included. The values are used as parsed: the defaults set in lines 37 to 39 are the
  switches of \<open>s1\<close>, the second parse gives the same \<open>numEnb\<close> and \<open>numUe\<close> as the
  first, and the eNB and UE containers receive exactly \<open>numEnb\<close> and \<open>numUe\<close> new nodes.
\<close>

theorem script_rejects_nothing:
  assumes "command_line fw argv (start declared) = Some s1"
      and "helpers (global_defaults s1) \<bind> config_store fw argv = Some s2"
  shows "\<exists>w. main fw argv = Some w \<and> vars w = vars s2 \<and>
             numEnb (vars s2) = numEnb (vars s1) \<and> numUe (vars s2) = numUe (vars s1) \<and>
             enbNodes w = map Node [1 ..< 1 + unat (numEnb (vars s1))] \<and>
             ueNodes w =
               map Node [1 + unat (numEnb (vars s1)) ..<
                         1 + unat (numEnb (vars s1)) + unat (numUe (vars s1))] \<and>
             Config_SetDefault ''ns3::MmWaveHelper::RlcAmEnabled''
               (BooleanValue (rlcAmEnabled (vars s1))) \<in> set (trace w) \<and>
             Config_SetDefault ''ns3::MmWaveHelper::HarqEnabled''
               (BooleanValue (harqEnabled (vars s1))) \<in> set (trace w) \<and>
             MmWaveHelper_SetHarqEnabled (harqEnabled (vars s1)) \<in> set (trace w)"
proof -
  from assms(1) obtain v1 d1 where
    h1: "handle_arguments fw script_options (drop 1 argv) (declared, Map.empty) = Some (v1, d1)" and
    s1: "vars s1 = v1" "defaults s1 = d1" "cmd s1 = script_options"
    by (auto simp: command_line_eq Parse_def start_def issue_def split: option.splits)
  have g: "defaults (global_defaults s1) =
      defaults (global_defaults ((start v1)\<lparr>defaults := d1\<rparr>))"
    by (simp add: defaults_global_defaults s1 start_def)
  from assms(2) obtain d v2 d2 where
    h2': "load_config_store fw (defaults (global_defaults s1)) = Some d" and
    h3: "handle_arguments fw script_options (drop 1 argv) (v1, d) = Some (v2, d2)" and
    s2: "vars s2 = v2"
    by (auto simp: helpers_eq config_store_def bind_eq_Some_conv ConfigureDefaults_Some
        Parse_Some global_defaults_eq s1)
  note h2 = h2' [unfolded g]
  from h1 h2 h3 have w: "main fw argv = Some (outcome v1 v2 d2)"
    by (auto simp: main_Some_iff)
  from handle_arguments_again [OF h1 h3] have same: "numEnb v2 = numEnb v1" "numUe v2 = numUe v1" .
  show ?thesis
    by (rule exI [of _ "outcome v1 v2 d2"]) (simp add: w s1 s2 same, simp add: outcome_def same)
qed

theorem script_rejects_nothing_witness:
  "main plain [''droneConfig'', ''--numEnb=0'', ''--numUe=0''] \<noteq> None \<and>
   enbNodes (the (main plain [''droneConfig'', ''--numEnb=0'', ''--numUe=0''])) = [] \<and>
   ueNodes (the (main plain [''droneConfig'', ''--numEnb=0'', ''--numUe=0''])) = []"
proof -
  define s1 where
    "s1 = the (command_line plain [''droneConfig'', ''--numEnb=0'', ''--numUe=0'']
                 (start declared))"
  define s2 where
    "s2 = the (helpers (global_defaults s1)
                 \<bind> config_store plain [''droneConfig'', ''--numEnb=0'', ''--numUe=0''])"
  have 1: "command_line plain [''droneConfig'', ''--numEnb=0'', ''--numUe=0''] (start declared)
             = Some s1"
    by (simp add: s1_def command_line_eq Parse_def evaluate start_def)
  have v: "numEnb (vars s1) = 0" "numUe (vars s1) = 0"
    by (simp_all add: s1_def command_line_eq Parse_def evaluate start_def issue_def)
  have c: "cmd s1 = script_options" "vars s1 = declared\<lparr>numEnb := 0, numUe := 0\<rparr>"
    by (simp_all add: s1_def command_line_eq Parse_def evaluate start_def issue_def)
  have 2: "helpers (global_defaults s1)
             \<bind> config_store plain [''droneConfig'', ''--numEnb=0'', ''--numUe=0''] = Some s2"
    by (simp add: s2_def helpers_eq config_store_def ConfigureDefaults_def Parse_def
        global_defaults_eq c issue_def plain_def GetOptionName_def HandleArgument_def
        script_options_def item_name_def item_reference_def decimal_def)
  from script_rejects_nothing [OF 1 2] show ?thesis
    by (auto simp: v)
qed

text \<open>
  C9. Take two runs that both reach the end of lines 27 to 86, started from variable values
  that agree on \<open>numEnb\<close>, \<open>numUe\<close>, \<open>harqEnabled\<close> and \<open>rlcAmEnabled\<close>, on argument lists
  that are alike position by position: equal arguments, or the same one of the options
  \<open>simTime\<close> and \<open>interPacketInterval\<close> with different texts. The two final states are
  equal in everything but the variables \<open>simTime\<close>, \<open>interPacketInterval\<close>,
  \<open>minDistance\<close> and \<open>maxDistance\<close>: the same framework calls in the same order, the
  same attribute defaults, helpers, nodes, link, addresses and route. So neither the two
  options nor the initial values of \<open>minDistance\<close> and \<open>maxDistance\<close> reach anything the
  script constructs. \<open>main\<close> is the run from the declared values.
\<close>

theorem unused_parameters_do_not_interfere:
  assumes "list_all2 alike argv argv'"
      and "agree v v'"
      and "run fw argv v = Some w"
      and "run fw argv' v' = Some w'"
  shows "configuration w = configuration w'"
proof -
  from assms(3) obtain v1 d1 d v2 d2 where
    a1: "handle_arguments fw script_options (drop 1 argv) (v, Map.empty) = Some (v1, d1)" and
    a2: "load_config_store fw (defaults (global_defaults ((start v1)\<lparr>defaults := d1\<rparr>))) = Some d" and
    a3: "handle_arguments fw script_options (drop 1 argv) (v1, d) = Some (v2, d2)" and
    w: "w = outcome v1 v2 d2"
    by (auto simp: run_Some_iff)
  from assms(4) obtain v1' d1' d' v2' d2' where
    b1: "handle_arguments fw script_options (drop 1 argv') (v', Map.empty) = Some (v1', d1')" and
    b2: "load_config_store fw (defaults (global_defaults ((start v1')\<lparr>defaults := d1'\<rparr>))) = Some d'" and
    b3: "handle_arguments fw script_options (drop 1 argv') (v1', d') = Some (v2', d2')" and
    w': "w' = outcome v1' v2' d2'"
    by (auto simp: run_Some_iff)
  from assms(1) have args: "list_all2 alike (drop 1 argv) (drop 1 argv')"
    by (rule list_all2_dropI)
  from handle_arguments_alike [OF args assms(2) a1 b1] have 1: "agree v1 v1'" "d1 = d1'"
    by simp_all
  then have "defaults (global_defaults ((start v1)\<lparr>defaults := d1\<rparr>)) =
             defaults (global_defaults ((start v1')\<lparr>defaults := d1'\<rparr>))"
    by (simp add: defaults_global_defaults start_def agree_def)
  with a2 b2 have d: "d = d'" by simp
  from handle_arguments_alike [OF args 1(1) a3 b3 [folded d]] have 2: "agree v2 v2'" "d2 = d2'"
    by simp_all
  from configuration_outcome [OF 1(1) 2(1)] show ?thesis
    by (simp add: w w' 2(2))
qed

theorem unused_parameters_do_not_interfere_witness:
  "simTime (vars (the (main plain
      [''droneConfig'', ''--simTime=5'', ''--numEnb=2'', ''--interPacketInterval=20'']))) = 5 \<and>
   simTime (vars (the (main plain
      [''droneConfig'', ''--simTime=9'', ''--numEnb=2'', ''--interPacketInterval=50'']))) = 9 \<and>
   configuration (the (main plain
      [''droneConfig'', ''--simTime=5'', ''--numEnb=2'', ''--interPacketInterval=20''])) =
   configuration (the (main plain
      [''droneConfig'', ''--simTime=9'', ''--numEnb=2'', ''--interPacketInterval=50'']))"
proof -
  have 1: "list_all2 alike
      [''droneConfig'', ''--simTime=5'', ''--numEnb=2'', ''--interPacketInterval=20'']
      [''droneConfig'', ''--simTime=9'', ''--numEnb=2'', ''--interPacketInterval=50'']"
    by (simp add: alike_def GetOptionName_def)
  have 2: "agree declared declared"
    by (simp add: agree_def)
  from unused_parameters_do_not_interfere
    [OF 1 2 plain_times [unfolded main_def] plain_other_times [unfolded main_def]]
  show ?thesis
    by (simp add: plain_times plain_other_times outcome_def declared_def)
qed

text \<open>
  C10. In every run that reaches the end of \<open>main\<close>, whatever the arguments, the
  point-to-point helper and both devices of the link carry the device attributes
  \<open>DataRate\<close> = 100Gb/s and \<open>Mtu\<close> = 1500 and the channel attribute \<open>Delay\<close> = 0.010
  seconds, and nothing else. The interface container has two entries, entry 0 on the PGW
  node and entry 1 on the remote host, and the remote host address recorded by the script
  is the address of entry 1.
\<close>

theorem link_attributes_fixed:
  assumes "main fw argv = Some w"
  shows "m_deviceFactory (p2ph w) =
           [''DataRate'' \<mapsto> DataRateValue (DataRate ''100Gb/s''),
            ''Mtu'' \<mapsto> UintegerValue 1500] \<and>
         m_channelFactory (p2ph w) = [''Delay'' \<mapsto> TimeValue (Seconds 0.010)] \<and>
         map device_attributes (internetDevices w) =
           [m_deviceFactory (p2ph w), m_deviceFactory (p2ph w)] \<and>
         map channel_attributes (internetDevices w) =
           [m_channelFactory (p2ph w), m_channelFactory (p2ph w)] \<and>
         length (internetIpIfaces w) = 2 \<and>
         interface_node (internetIpIfaces w ! 0) = PgwNode \<and>
         Some (interface_node (internetIpIfaces w ! 1)) = remoteHost w \<and>
         remoteHostAddr w = Some (interface_address (internetIpIfaces w ! 1))"
proof -
  from assms obtain v1 v2 d2 where "w = outcome v1 v2 d2"
    by (auto simp: main_Some_iff)
  then show ?thesis
    by (simp add: outcome_def)
qed

theorem link_attributes_fixed_witness:
  "m_deviceFactory (p2ph (the (main plain [''droneConfig'', ''--harq'', ''--rlcAm=1''])))
     ''Mtu'' = Some (UintegerValue 1500) \<and>
   m_channelFactory (p2ph (the (main plain [''droneConfig'', ''--harq'', ''--rlcAm=1''])))
     ''Delay'' = Some (TimeValue (Seconds 0.010)) \<and>
   remoteHostAddr (the (main plain [''droneConfig'', ''--harq'', ''--rlcAm=1''])) =
     Some (NewAddress (Ipv4Address ''1.0.0.0'') (Ipv4Mask ''255.0.0.0'') 2)"
  using link_attributes_fixed [OF plain_switches]
  by (simp add: plain_switches outcome_def)

end
